theory Spec2Isabelle
  imports Complex_Main "HOL-Library.Char_ord" "HOL-Library.List_Lexorder"
begin

section \<open>cubeviz/controls/units.py: unit registries, unit classification, wavelengths\<close>

text \<open>
  A shallow embedding of \<^verbatim>\<open>src/cubeviz/controls/units.py\<close>. The module is written
  against astropy's unit system, which is not part of the repository: every call into
  astropy is a field of the record \<open>astropy\<close> below, and every function of the module
  takes that record as its first argument. Python floats are idealised as reals.
  Module globals (\<^verbatim>\<open>FLUX_UNIT_REGISTRY\<close>, \<^verbatim>\<open>AREA_UNIT_REGISTRY\<close>) and astropy's
  set of enabled units are passed and returned explicitly.
\<close>

subsection \<open>Python values and exceptions\<close>

text \<open>The exceptions that the modelled code can raise.\<close>

datatype exn =
  ValueError | KeyError | IndexError | AttributeError | TypeError | UnboundLocalError

text \<open>
  A value read from the YAML configuration: null, a string or a number. Python's
  truth test on it is \<open>truthy\<close>.
\<close>

datatype yval = YNull | YStr string | YNum real

fun truthy :: "yval \<Rightarrow> bool" where
  "truthy YNull = False"
| "truthy (YStr s) = (s \<noteq> [])"
| "truthy (YNum r) = (r \<noteq> 0)"

text \<open>
  An object handed to a registry: \<^verbatim>\<open>None\<close>, a \<^verbatim>\<open>str\<close>, an astropy unit
  (an instance of \<^verbatim>\<open>u.UnitBase\<close>), or an object of any other type.
\<close>

datatype 'u pyobj = PyNone | PyStr string | PyUnit 'u | PyOther

text \<open>\<^verbatim>\<open>needle in hay\<close> on two strings: \<open>needle\<close> occurs as a contiguous substring.\<close>

fun str_contains :: "string \<Rightarrow> string \<Rightarrow> bool" where
  "str_contains needle [] = (needle = [])"
| "str_contains needle (c # cs) =
     (take (length needle) (c # cs) = needle \<or> str_contains needle cs)"

subsection \<open>The astropy interface\<close>

text \<open>
  \<open>'u\<close> is the type of astropy unit objects and \<open>'ns\<close> the state of astropy's registry
  of enabled units. The fields are the library calls the module makes:
  \<^item> \<open>u_Unit ns v\<close> is \<^verbatim>\<open>u.Unit(v)\<close> with \<open>ns\<close> enabled; \<open>None\<close> is \<^verbatim>\<open>ValueError\<close>;
  \<^item> \<open>u_to_string\<close>, \<open>u_to_string_unscaled\<close>, \<open>u_scale\<close>, \<open>u_physical_type\<close> are
    \<^verbatim>\<open>unit.to_string()\<close>, \<^verbatim>\<open>unit.to_string("unscaled")\<close>, \<^verbatim>\<open>unit.scale\<close> and
    \<^verbatim>\<open>unit.physical_type\<close>;
  \<^item> \<open>u_eq\<close> is \<^verbatim>\<open>==\<close> on two units and \<open>u_eq_str\<close> is \<^verbatim>\<open>==\<close> between a unit and a
    \<^verbatim>\<open>str\<close> (astropy parses the string operand);
  \<^item> \<open>u_def_unit name base\<close> is \<^verbatim>\<open>u.def_unit(name)\<close> or \<^verbatim>\<open>u.def_unit(name, base)\<close>;
  \<^item> \<open>u_add_enabled_units x ns\<close> is \<^verbatim>\<open>u.add_enabled_units(x)\<close>, which may raise;
  \<^item> \<open>u_is_pix_equiv x\<close> is \<^verbatim>\<open>x.decompose() == u.pix.decompose()\<close>;
  \<^item> \<open>u_pow2 x\<close> is \<^verbatim>\<open>x**2\<close>;
  \<^item> \<open>u_spectral_density\<close> lists the unit pairs of \<^verbatim>\<open>u.spectral_density(3500 * u.AA)\<close>,
    \<open>u_degree_equivalent_units\<close> is \<^verbatim>\<open>u.degree.find_equivalent_units()\<close>;
  \<^item> the fields \<open>u_uJy\<close> to \<open>u_steradian\<close> are the unit constants the module names;
  \<^item> \<open>py_float_of_str s\<close> is Python's own \<^verbatim>\<open>float(s)\<close> on a \<^verbatim>\<open>str\<close>; \<open>None\<close> is
    \<^verbatim>\<open>ValueError\<close>.
  \<open>u.Unit\<close> is used on strings and numbers; \<^verbatim>\<open>u.Unit(None)\<close> raises \<^verbatim>\<open>TypeError\<close>,
  which the model writes out where \<^verbatim>\<open>None\<close> can reach the call.
\<close>

record ('u, 'ns) astropy =
  u_Unit :: "'ns \<Rightarrow> yval \<Rightarrow> 'u option"
  u_to_string :: "'u \<Rightarrow> string"
  u_to_string_unscaled :: "'u \<Rightarrow> string"
  u_scale :: "'u \<Rightarrow> real"
  u_physical_type :: "'u \<Rightarrow> string"
  u_eq :: "'u \<Rightarrow> 'u \<Rightarrow> bool"
  u_eq_str :: "'u \<Rightarrow> string \<Rightarrow> bool"
  u_def_unit :: "string \<Rightarrow> 'u option \<Rightarrow> 'u"
  u_add_enabled_units :: "'u \<Rightarrow> 'ns \<Rightarrow> exn + 'ns"
  u_is_pix_equiv :: "'u \<Rightarrow> bool"
  u_pow2 :: "'u \<Rightarrow> 'u"
  u_spectral_density :: "('u \<times> 'u) list"
  u_degree_equivalent_units :: "'u list"
  u_uJy :: 'u
  u_mJy :: 'u
  u_Jy :: 'u
  u_erg_cm2_s_Hz :: 'u
  u_erg_cm2_s_um :: 'u
  u_erg_cm2_s :: 'u
  u_pix :: 'u
  u_steradian :: 'u
  py_float_of_str :: "string \<Rightarrow> real option"

text \<open>
  \<^verbatim>\<open>a == b\<close> on registry items. Two strings compare as strings; when a unit is one
  operand astropy's \<^verbatim>\<open>__eq__\<close> decides (for \<^verbatim>\<open>str == unit\<close> through the reflected
  call).
\<close>

fun py_eq :: "('u, 'ns) astropy \<Rightarrow> 'u pyobj \<Rightarrow> 'u pyobj \<Rightarrow> bool" where
  "py_eq lib (PyStr a) (PyStr b) = (a = b)"
| "py_eq lib (PyUnit a) (PyUnit b) = u_eq lib a b"
| "py_eq lib (PyUnit a) (PyStr b) = u_eq_str lib a b"
| "py_eq lib (PyStr a) (PyUnit b) = u_eq_str lib b a"
| "py_eq lib PyNone PyNone = True"
| "py_eq lib _ _ = False"

text \<open>\<^verbatim>\<open>item in xs\<close> on a list: some element equals the item.\<close>

definition py_in :: "('u, 'ns) astropy \<Rightarrow> 'u pyobj \<Rightarrow> 'u pyobj list \<Rightarrow> bool" where
  "py_in lib item xs = list_ex (\<lambda>e. py_eq lib e item) xs"

text \<open>
  The loop shared by both \<^verbatim>\<open>get_unit_list\<close> methods: a string is kept, a unit
  contributes \<^verbatim>\<open>to_string()\<close>, anything else is skipped.
\<close>

fun unit_list_of :: "('u, 'ns) astropy \<Rightarrow> 'u pyobj list \<Rightarrow> string list" where
  "unit_list_of lib [] = []"
| "unit_list_of lib (PyStr s # items) = s # unit_list_of lib items"
| "unit_list_of lib (PyUnit x # items) = u_to_string lib x # unit_list_of lib items"
| "unit_list_of lib (_ # items) = unit_list_of lib items"

text \<open>
  \<^verbatim>\<open>sorted(list(set(unit_list)))\<close>. The order in which the set is listed does not
  matter to the sorted result, so the set is taken by \<open>remdups\<close>.
\<close>

definition sorted_set :: "string list \<Rightarrow> string list" where
  "sorted_set unit_list = sort (remdups unit_list)"

subsection \<open>FluxUnitRegistry\<close>

record 'u FluxUnitRegistry =
  runtime_defined_units :: "'u pyobj list"

definition FluxUnitRegistry_init :: "'u FluxUnitRegistry" where
  "FluxUnitRegistry_init = \<lparr>runtime_defined_units = []\<rparr>"

definition locally_defined_units :: "('u, 'ns) astropy \<Rightarrow> 'u list" where
  "locally_defined_units lib =
     [u_uJy lib, u_mJy lib, u_Jy lib, u_erg_cm2_s_Hz lib, u_erg_cm2_s_um lib, u_erg_cm2_s lib]"

definition is_spectral_flux_density :: "('u, 'ns) astropy \<Rightarrow> 'u \<Rightarrow> bool" where
  "is_spectral_flux_density lib x =
     str_contains ''spectral flux density'' (u_physical_type lib x)"

fun equivalencies_loop :: "('u, 'ns) astropy \<Rightarrow> ('u \<times> 'u) list \<Rightarrow> 'u list" where
  "equivalencies_loop lib [] = []"
| "equivalencies_loop lib ((unit1, unit2) # rest) =
     (if is_spectral_flux_density lib unit1 then [unit1] else []) @
     (if is_spectral_flux_density lib unit2 then [unit2] else []) @
     equivalencies_loop lib rest"

definition equivalencies_defined_units :: "('u, 'ns) astropy \<Rightarrow> 'u list" where
  "equivalencies_defined_units lib = equivalencies_loop lib (u_spectral_density lib)"

definition FluxUnitRegistry_get_unit_list ::
  "('u, 'ns) astropy \<Rightarrow> 'u FluxUnitRegistry \<Rightarrow> string list" where
  "FluxUnitRegistry_get_unit_list lib self =
     (let item_list = map PyUnit (equivalencies_defined_units lib)
                      @ map PyUnit (locally_defined_units lib)
                      @ runtime_defined_units self
      in sorted_set (unit_list_of lib item_list))"

fun isinstance_str_or_UnitBase :: "'u pyobj \<Rightarrow> bool" where
  "isinstance_str_or_UnitBase (PyStr s) = True"
| "isinstance_str_or_UnitBase (PyUnit x) = True"
| "isinstance_str_or_UnitBase _ = False"

definition FluxUnitRegistry_add_unit ::
  "('u, 'ns) astropy \<Rightarrow> 'u FluxUnitRegistry \<Rightarrow> 'u pyobj \<Rightarrow> 'u FluxUnitRegistry" where
  "FluxUnitRegistry_add_unit lib self item =
     (if isinstance_str_or_UnitBase item then
        (if \<not> py_in lib item (runtime_defined_units self)
         then self\<lparr>runtime_defined_units := runtime_defined_units self @ [item]\<rparr>
         else self)
      else self)"

subsection \<open>AreaUnitRegistry\<close>

record 'u AreaUnitRegistry =
  runtime_solid_angle_units :: "'u pyobj list"
  runtime_pixel_units :: "'u pyobj list"

definition AreaUnitRegistry_init :: "'u AreaUnitRegistry" where
  "AreaUnitRegistry_init = \<lparr>runtime_solid_angle_units = [], runtime_pixel_units = []\<rparr>"

definition locally_defined_solid_angle_units :: "('u, 'ns) astropy \<Rightarrow> 'u list" where
  "locally_defined_solid_angle_units lib = []"

text \<open>
  \<^verbatim>\<open>_locally_defined_pixel_units\<close> defines \<^verbatim>\<open>spaxel\<close> and enables it in astropy on
  every call, so it takes and returns the registry of enabled units and fails when
  astropy refuses the unit.
\<close>

definition locally_defined_pixel_units ::
  "('u, 'ns) astropy \<Rightarrow> 'ns \<Rightarrow> exn + ('u list \<times> 'ns)" where
  "locally_defined_pixel_units lib ns =
     (let spaxel = u_def_unit lib ''spaxel'' (Some (u_pix lib))
      in case u_add_enabled_units lib spaxel ns of
           Inl e \<Rightarrow> Inl e
         | Inr ns' \<Rightarrow> Inr ([spaxel], ns'))"

definition astropy_derived_solid_angle_units :: "('u, 'ns) astropy \<Rightarrow> 'u list" where
  "astropy_derived_solid_angle_units lib = map (u_pow2 lib) (u_degree_equivalent_units lib)"

definition astropy_defined_solid_angle_units :: "('u, 'ns) astropy \<Rightarrow> 'u list" where
  "astropy_defined_solid_angle_units lib = [u_steradian lib]"

definition pixel_units :: "('u, 'ns) astropy \<Rightarrow> 'u list" where
  "pixel_units lib = [u_pix lib]"

definition solid_angle_items ::
  "('u, 'ns) astropy \<Rightarrow> 'u AreaUnitRegistry \<Rightarrow> bool \<Rightarrow> 'u pyobj list" where
  "solid_angle_items lib self pixel_only =
     (if \<not> pixel_only then
        runtime_solid_angle_units self
        @ map PyUnit (locally_defined_solid_angle_units lib)
        @ map PyUnit (astropy_defined_solid_angle_units lib)
        @ map PyUnit (astropy_derived_solid_angle_units lib)
      else [])"

definition AreaUnitRegistry_get_unit_list ::
  "('u, 'ns) astropy \<Rightarrow> 'u AreaUnitRegistry \<Rightarrow> bool \<Rightarrow> bool \<Rightarrow> 'ns
     \<Rightarrow> exn + (string list \<times> 'ns)" where
  "AreaUnitRegistry_get_unit_list lib self pixel_only solid_angle_only ns =
     (if \<not> solid_angle_only then
        (case locally_defined_pixel_units lib ns of
           Inl e \<Rightarrow> Inl e
         | Inr (local_pixel, ns') \<Rightarrow>
             Inr (sorted_set (unit_list_of lib
                    (runtime_pixel_units self
                     @ map PyUnit local_pixel
                     @ map PyUnit (pixel_units lib)
                     @ solid_angle_items lib self pixel_only)), ns'))
      else Inr (sorted_set (unit_list_of lib (solid_angle_items lib self pixel_only)), ns))"

definition AreaUnitRegistry_add_pixel_unit ::
  "('u, 'ns) astropy \<Rightarrow> 'u AreaUnitRegistry \<Rightarrow> 'u pyobj \<Rightarrow> 'u AreaUnitRegistry" where
  "AreaUnitRegistry_add_pixel_unit lib self item =
     (if isinstance_str_or_UnitBase item then
        (if \<not> py_in lib item (runtime_pixel_units self)
         then self\<lparr>runtime_pixel_units := runtime_pixel_units self @ [item]\<rparr>
         else self)
      else self)"

definition AreaUnitRegistry_add_solid_angle_unit ::
  "('u, 'ns) astropy \<Rightarrow> 'u AreaUnitRegistry \<Rightarrow> 'u pyobj \<Rightarrow> 'u AreaUnitRegistry" where
  "AreaUnitRegistry_add_solid_angle_unit lib self item =
     (if isinstance_str_or_UnitBase item then
        (if \<not> py_in lib item (runtime_solid_angle_units self)
         then self\<lparr>runtime_solid_angle_units := runtime_solid_angle_units self @ [item]\<rparr>
         else self)
      else self)"

text \<open>A call sequence on the area registry: each call adds to one of the two lists.\<close>

datatype 'u area_call = Add_pixel_unit "'u pyobj" | Add_solid_angle_unit "'u pyobj"

fun apply_area_call ::
  "('u, 'ns) astropy \<Rightarrow> 'u AreaUnitRegistry \<Rightarrow> 'u area_call \<Rightarrow> 'u AreaUnitRegistry" where
  "apply_area_call lib self (Add_pixel_unit item) = AreaUnitRegistry_add_pixel_unit lib self item"
| "apply_area_call lib self (Add_solid_angle_unit item) =
     AreaUnitRegistry_add_solid_angle_unit lib self item"

subsection \<open>UnitController: wavelengths and redshift\<close>

definition OBS_WAVELENGTH_TEXT :: string where
  "OBS_WAVELENGTH_TEXT = ''Obs Wavelength''"

definition REST_WAVELENGTH_TEXT :: string where
  "REST_WAVELENGTH_TEXT = ''Rest Wavelength''"

text \<open>
  The six length units of the wavelength combobox, \<^verbatim>\<open>[u.m, u.cm, u.mm, u.um, u.nm, u.AA]\<close>.
  \<open>si_scale\<close> is the length of one unit in metres, \<open>long_title\<close> is
  \<^verbatim>\<open>unit.long_names[0].title()\<close>; both are astropy's data for these units.
\<close>

datatype wunit = U_m | U_cm | U_mm | U_um | U_nm | U_AA

fun si_scale :: "wunit \<Rightarrow> real" where
  "si_scale U_m = 1"
| "si_scale U_cm = 1 / 100"
| "si_scale U_mm = 1 / 1000"
| "si_scale U_um = 1 / 1000000"
| "si_scale U_nm = 1 / 1000000000"
| "si_scale U_AA = 1 / 10000000000"

fun long_title :: "wunit \<Rightarrow> string" where
  "long_title U_m = ''Meter''"
| "long_title U_cm = ''Centimeter''"
| "long_title U_mm = ''Millimeter''"
| "long_title U_um = ''Micrometer''"
| "long_title U_nm = ''Nanometer''"
| "long_title U_AA = ''Angstrom''"

text \<open>
  A value that the controller holds or passes on as wavelengths: \<^verbatim>\<open>None\<close>,
  \<^verbatim>\<open>False\<close>, or an array of numbers.
\<close>

datatype wl_value = WNone | WFalse | WArray "real list"

fun wl_of_option :: "real list option \<Rightarrow> wl_value" where
  "wl_of_option None = WNone"
| "wl_of_option (Some ws) = WArray ws"

text \<open>
  The calls that the controller makes on its collaborators, in the order made:
  \<^verbatim>\<open>_cv_layout.set_wavelengths\<close>, the assignment to
  \<^verbatim>\<open>_cv_layout._slice_controller.wavelength_label\<close>,
  \<^verbatim>\<open>_cv_layout._slice_controller.set_wavelengths\<close> and
  \<^verbatim>\<open>specviz_dispatch.change_redshift.emit\<close>.
\<close>

datatype call =
    Layout_set_wavelengths wl_value wunit
  | Slice_wavelength_label string
  | Slice_set_wavelengths wl_value wunit
  | Emit_change_redshift real

text \<open>
  The attributes of a \<^verbatim>\<open>UnitController\<close>. \<open>original_wavelengths\<close> is \<open>None\<close> when the
  layout holds no wavelengths; \<open>redshift_z\<close> is \<open>None\<close> for Python's \<^verbatim>\<open>None\<close>;
  \<open>wavelengths\<close> is the attribute \<^verbatim>\<open>_wavelengths\<close>, \<open>None\<close> until the redshift setter
  assigns it. The opaque \<^verbatim>\<open>_wcs\<close> is left out.
\<close>

record UnitController =
  original_wavelengths :: "real list option"
  new_wavelengths :: wl_value
  original_units :: wunit
  new_units :: wunit
  redshift_z :: "real option"
  units :: "wunit list"
  units_titles :: "string list"
  wavelength_textbox_label :: string
  wavelengths :: "real list option"

definition UnitController_init :: "real list option \<Rightarrow> string \<Rightarrow> UnitController" where
  "UnitController_init layout_wavelengths label_text =
     \<lparr>original_wavelengths = layout_wavelengths,
      new_wavelengths = WArray [],
      original_units = U_m,
      new_units = U_m,
      redshift_z = Some 0,
      units = [U_m, U_cm, U_mm, U_um, U_nm, U_AA],
      units_titles = map long_title [U_m, U_cm, U_mm, U_um, U_nm, U_AA],
      wavelength_textbox_label = label_text,
      wavelengths = None\<rparr>"

text \<open>
  \<^verbatim>\<open>array / d\<close> and \<^verbatim>\<open>d * array\<close> on a numpy array. Where \<open>d = 0\<close> numpy divides to
  \<^verbatim>\<open>inf\<close> or \<^verbatim>\<open>nan\<close>, which the reals do not have: statements about a quotient
  exclude that divisor.
\<close>

definition np_divide :: "real list \<Rightarrow> real \<Rightarrow> real list" where
  "np_divide ws d = map (\<lambda>w. w / d) ws"

definition np_scale :: "real \<Rightarrow> real list \<Rightarrow> real list" where
  "np_scale d ws = map (\<lambda>w. d * w) ws"

text \<open>
  The \<^verbatim>\<open>redshift_z\<close> setter. The result is the exception raised (if any), the
  controller as the call leaves it, and the collaborator calls made. Arithmetic on an
  absent array or an absent redshift raises \<^verbatim>\<open>TypeError\<close> after the assignments and
  calls that precede it.
\<close>

definition redshift_z_setter ::
  "UnitController \<Rightarrow> real option \<Rightarrow> exn option \<times> UnitController \<times> call list" where
  "redshift_z_setter self new_z =
     (if redshift_z self = new_z then (None, self, [])
      else
        let self1 = self\<lparr>redshift_z := new_z\<rparr>;
            rest = (case new_z of None \<Rightarrow> False | Some z \<Rightarrow> z > 0);
            label = (if rest then REST_WAVELENGTH_TEXT else OBS_WAVELENGTH_TEXT);
            self2 = self1\<lparr>wavelength_textbox_label := label\<rparr>;
            calls1 = [Slice_wavelength_label label]
        in
        case (if rest
              then (case original_wavelengths self2 of
                      None \<Rightarrow> Inl TypeError
                    | Some ws \<Rightarrow> Inr (WArray (np_scale (1 + the new_z) ws)))
              else Inr (wl_of_option (original_wavelengths self2))) of
          Inl e \<Rightarrow> (Some e, self2, calls1)
        | Inr pushed \<Rightarrow>
            let calls2 = calls1 @ [Layout_set_wavelengths pushed (new_units self2)] in
            (case redshift_z self2 of
               None \<Rightarrow> (Some TypeError, self2, calls2)
             | Some z \<Rightarrow>
                 (case original_wavelengths self2 of
                    None \<Rightarrow> (Some TypeError, self2, calls2)
                  | Some ws \<Rightarrow>
                      let q = np_divide ws (1 + z);
                          self3 = self2\<lparr>wavelengths := Some q\<rparr>
                      in (None, self3,
                          calls2 @ [Slice_set_wavelengths (WArray q) (new_units self3),
                                    Emit_change_redshift z]))))"

text \<open>The listener for \<^verbatim>\<open>change_redshift\<close> messages from specviz.\<close>

definition change_redshift ::
  "UnitController \<Rightarrow> real option \<Rightarrow> exn option \<times> UnitController \<times> call list" where
  "change_redshift self redshift =
     (if redshift_z self = redshift then (None, self, [])
      else redshift_z_setter self redshift)"

text \<open>
  \<^verbatim>\<open>(old_wavelengths * old_units).to(new_units) / new_units\<close>: astropy converts a
  length by the ratio of the two units' scales. Without wavelengths the method
  returns \<^verbatim>\<open>False\<close>.
\<close>

definition convert_wavelengths :: "real list option \<Rightarrow> wunit \<Rightarrow> wunit \<Rightarrow> wl_value" where
  "convert_wavelengths old_wavelengths old_unit new_unit =
     (case old_wavelengths of
        Some ws \<Rightarrow> WArray (map (\<lambda>w. w * si_scale old_unit / si_scale new_unit) ws)
      | None \<Rightarrow> WFalse)"

text \<open>\<^verbatim>\<open>xs.index(x)\<close>: the first position of \<open>x\<close>, \<open>None\<close> for \<^verbatim>\<open>ValueError\<close>.\<close>

fun list_index :: "'a list \<Rightarrow> 'a \<Rightarrow> nat option" where
  "list_index [] x = None"
| "list_index (y # ys) x =
     (if y = x then Some 0 else map_option Suc (list_index ys x))"

definition on_combobox_change ::
  "UnitController \<Rightarrow> string \<Rightarrow> exn option \<times> UnitController \<times> call list" where
  "on_combobox_change self new_unit_name =
     (case list_index (units_titles self) new_unit_name of
        None \<Rightarrow> (Some ValueError, self, [])
      | Some i \<Rightarrow>
          if i < length (units self) then
            let self1 = self\<lparr>new_units := units self ! i\<rparr>;
                self2 = self1\<lparr>new_wavelengths :=
                          convert_wavelengths (original_wavelengths self1)
                            (original_units self1) (new_units self1)\<rparr>
            in if new_wavelengths self2 = WNone then (None, self2, [])
               else (None, self2,
                     [Layout_set_wavelengths (new_wavelengths self2) (new_units self2)])
          else (Some IndexError, self, []))"

definition enable :: "UnitController \<Rightarrow> real list option \<Rightarrow> UnitController" where
  "enable self wavelength = self\<lparr>original_wavelengths := wavelength\<rparr>"

definition get_new_units :: "UnitController \<Rightarrow> wunit" where
  "get_new_units self = new_units self"

subsection \<open>The CubeVizUnit classes\<close>

text \<open>
  The attributes that \<^verbatim>\<open>CubeVizUnit.__init__\<close> sets. \<open>unit_string\<close> holds whatever the
  caller passes, which for a registered alias is a value of the configuration.
\<close>

record 'u CubeVizUnit_attrs =
  original_unit :: "'u option"
  unit :: "'u option"
  unit_string :: yval
  type_name :: string
  is_convertable :: bool

definition CubeVizUnit_init :: "'u option \<Rightarrow> yval \<Rightarrow> 'u CubeVizUnit_attrs" where
  "CubeVizUnit_init unit_arg unit_string_arg =
     \<lparr>original_unit = unit_arg, unit = unit_arg, unit_string = unit_string_arg,
      type_name = ''CubeVizUnit'', is_convertable = False\<rparr>"

text \<open>The three subclasses; \<open>SpectralFluxDensity\<close> adds three attributes.\<close>

datatype 'u CubeVizUnit =
    NoneUnit "'u CubeVizUnit_attrs"
  | UnknownUnit "'u CubeVizUnit_attrs"
  | SpectralFluxDensity "'u CubeVizUnit_attrs" "real option" "'u option" "'u option"

fun attrs :: "'u CubeVizUnit \<Rightarrow> 'u CubeVizUnit_attrs" where
  "attrs (NoneUnit b) = b"
| "attrs (UnknownUnit b) = b"
| "attrs (SpectralFluxDensity b n f a) = b"

fun numeric :: "'u CubeVizUnit \<Rightarrow> real option" where
  "numeric (SpectralFluxDensity b n f a) = n"
| "numeric _ = None"


fun area :: "'u CubeVizUnit \<Rightarrow> 'u option" where
  "area (SpectralFluxDensity b n f a) = a"
| "area _ = None"


fun is_NoneUnit :: "'u CubeVizUnit \<Rightarrow> bool" where
  "is_NoneUnit (NoneUnit b) = True"
| "is_NoneUnit _ = False"

fun is_UnknownUnit :: "'u CubeVizUnit \<Rightarrow> bool" where
  "is_UnknownUnit (UnknownUnit b) = True"
| "is_UnknownUnit _ = False"

text \<open>
  The module globals and astropy's enabled units, which the constructors and the
  controller read and change.
\<close>

record ('u, 'ns) world =
  enabled_units :: 'ns
  FLUX_UNIT_REGISTRY :: "'u FluxUnitRegistry"
  AREA_UNIT_REGISTRY :: "'u AreaUnitRegistry"

fun pyobj_of_unit :: "'u option \<Rightarrow> 'u pyobj" where
  "pyobj_of_unit None = PyNone"
| "pyobj_of_unit (Some x) = PyUnit x"

text \<open>
  \<^verbatim>\<open>SpectralFluxDensity.__init__\<close>: \<open>is_formatted\<close> selects the type name, and the flux
  sub-unit is handed to \<^verbatim>\<open>FLUX_UNIT_REGISTRY.add_unit\<close>.
\<close>

definition SpectralFluxDensity_init ::
  "('u, 'ns) astropy \<Rightarrow> 'u option \<Rightarrow> yval \<Rightarrow> real option \<Rightarrow> 'u option \<Rightarrow> 'u option \<Rightarrow> bool
     \<Rightarrow> ('u, 'ns) world \<Rightarrow> 'u CubeVizUnit \<times> ('u, 'ns) world" where
  "SpectralFluxDensity_init lib unit_arg unit_string_arg numeric_arg sfd_arg area_arg
       is_formatted w =
     (SpectralFluxDensity
        ((CubeVizUnit_init unit_arg unit_string_arg)
           \<lparr>type_name := (if is_formatted then ''FormattedSpectralFluxDensity''
                           else ''SpectralFluxDensity''),
            is_convertable := True\<rparr>)
        numeric_arg sfd_arg area_arg,
      w\<lparr>FLUX_UNIT_REGISTRY :=
           FluxUnitRegistry_add_unit lib (FLUX_UNIT_REGISTRY w) (pyobj_of_unit sfd_arg)\<rparr>)"

definition UnknownUnit_init :: "'u option \<Rightarrow> yval \<Rightarrow> 'u CubeVizUnit" where
  "UnknownUnit_init unit_arg unit_string_arg =
     UnknownUnit ((CubeVizUnit_init unit_arg unit_string_arg)\<lparr>type_name := ''UnknownUnit''\<rparr>)"

definition NoneUnit_init :: "'u CubeVizUnit" where
  "NoneUnit_init = NoneUnit ((CubeVizUnit_init None (YStr []))\<lparr>type_name := ''NoneUnit''\<rparr>)"

subsection \<open>FluxUnitController\<close>

text \<open>
  The configuration file after \<^verbatim>\<open>yaml.load\<close>: \<open>new_units\<close> in the order of the file,
  \<open>registered_units\<close> from alias string to alias record. Each entry is a dictionary
  from field name to value.
\<close>

type_synonym ydict = "string \<rightharpoonup> yval"

record config =
  cfg_new_units :: "(string \<times> ydict) list"
  cfg_registered_units :: "string \<rightharpoonup> ydict"

text \<open>
  The attributes \<^verbatim>\<open>registered_units\<close> and \<^verbatim>\<open>components\<close>; \<^verbatim>\<open>data\<close> and
  \<^verbatim>\<open>cubeviz_layout\<close> are opaque references and left out.
\<close>

record 'u FluxUnitController =
  registered_units :: "string \<rightharpoonup> ydict"
  components :: "string \<rightharpoonup> 'u CubeVizUnit"

definition register_new_unit ::
  "('u, 'ns) astropy \<Rightarrow> 'u \<Rightarrow> ('u, 'ns) world \<Rightarrow> exn + ('u, 'ns) world" where
  "register_new_unit lib new_unit w =
     (case u_add_enabled_units lib new_unit (enabled_units w) of
        Inl e \<Rightarrow> Inl e
      | Inr ns' \<Rightarrow>
          let w1 = w\<lparr>enabled_units := ns'\<rparr>;
              w2 = (if is_spectral_flux_density lib new_unit
                    then w1\<lparr>FLUX_UNIT_REGISTRY :=
                           FluxUnitRegistry_add_unit lib (FLUX_UNIT_REGISTRY w1) (PyUnit new_unit)\<rparr>
                    else w1);
              w3 = (if u_is_pix_equiv lib new_unit
                    then w2\<lparr>AREA_UNIT_REGISTRY :=
                           AreaUnitRegistry_add_pixel_unit lib (AREA_UNIT_REGISTRY w2)
                             (PyUnit new_unit)\<rparr>
                    else w2);
              w4 = (if str_contains ''solid angle'' (u_physical_type lib new_unit)
                    then w3\<lparr>AREA_UNIT_REGISTRY :=
                           AreaUnitRegistry_add_solid_angle_unit lib (AREA_UNIT_REGISTRY w3)
                             (PyUnit new_unit)\<rparr>
                    else w3)
          in Inr w4)"

text \<open>
  The \<^verbatim>\<open>try\<close>/\<^verbatim>\<open>except ValueError\<close> block of the constructor's loop. The result is the
  value of the local variable \<^verbatim>\<open>new_astropy_unit\<close> after the block, \<open>None\<close> while it
  is unbound. When \<^verbatim>\<open>u.Unit(new_unit["name"])\<close> succeeds, its result is dropped and the
  variable keeps what it held.
\<close>

definition try_define_unit ::
  "('u, 'ns) astropy \<Rightarrow> ydict \<Rightarrow> 'u option \<Rightarrow> 'ns \<Rightarrow> exn + 'u option" where
  "try_define_unit lib new_unit new_astropy_unit ns =
     (case new_unit ''name'' of
        None \<Rightarrow> Inl KeyError
      | Some YNull \<Rightarrow> Inl TypeError
      | Some name \<Rightarrow>
          (case u_Unit lib ns name of
             Some existing \<Rightarrow> Inr new_astropy_unit
           | None \<Rightarrow>
               (case new_unit ''base'' of
                  Some YNull \<Rightarrow> Inl TypeError
                | Some base \<Rightarrow>
                    (case u_Unit lib ns base of
                       None \<Rightarrow> Inl ValueError
                     | Some b \<Rightarrow>
                         (case name of
                            YStr s \<Rightarrow> Inr (Some (u_def_unit lib s (Some b)))
                          | _ \<Rightarrow> Inl TypeError))
                | None \<Rightarrow>
                    (case name of
                       YStr s \<Rightarrow> Inr (Some (u_def_unit lib s None))
                     | _ \<Rightarrow> Inl TypeError))))"

text \<open>
  The loop over \<^verbatim>\<open>cfg["new_units"]\<close>. Reading \<^verbatim>\<open>new_astropy_unit\<close> while it is unbound
  raises \<^verbatim>\<open>UnboundLocalError\<close>.
\<close>

fun new_units_loop ::
  "('u, 'ns) astropy \<Rightarrow> (string \<times> ydict) list \<Rightarrow> 'u option \<Rightarrow> ('u, 'ns) world
     \<Rightarrow> exn + ('u, 'ns) world" where
  "new_units_loop lib [] new_astropy_unit w = Inr w"
| "new_units_loop lib ((new_unit_key, new_unit) # rest) new_astropy_unit w =
     (case try_define_unit lib new_unit new_astropy_unit (enabled_units w) of
        Inl e \<Rightarrow> Inl e
      | Inr None \<Rightarrow> Inl UnboundLocalError
      | Inr (Some x) \<Rightarrow>
          (case register_new_unit lib x w of
             Inl e \<Rightarrow> Inl e
           | Inr w' \<Rightarrow> new_units_loop lib rest (Some x) w'))"

definition FluxUnitController_init ::
  "('u, 'ns) astropy \<Rightarrow> config \<Rightarrow> ('u, 'ns) world
     \<Rightarrow> exn + ('u FluxUnitController \<times> ('u, 'ns) world)" where
  "FluxUnitController_init lib cfg w =
     (case new_units_loop lib (cfg_new_units cfg) None w of
        Inl e \<Rightarrow> Inl e
      | Inr w' \<Rightarrow>
          Inr (\<lparr>registered_units = cfg_registered_units cfg, components = Map.empty\<rparr>, w'))"

text \<open>
  \<^verbatim>\<open>string_to_unit\<close>: a false value gives \<^verbatim>\<open>None\<close> without parsing; a
  \<^verbatim>\<open>ValueError\<close> from \<^verbatim>\<open>u.Unit\<close> is caught, reported and gives \<^verbatim>\<open>None\<close> too.
\<close>

definition string_to_unit :: "('u, 'ns) astropy \<Rightarrow> 'ns \<Rightarrow> yval \<Rightarrow> 'u option" where
  "string_to_unit lib ns unit_string_arg =
     (if truthy unit_string_arg then u_Unit lib ns unit_string_arg else None)"

text \<open>
  The argument \<^verbatim>\<open>unit\<close> of \<^verbatim>\<open>add_component_unit\<close>, by the type tests of
  \<^verbatim>\<open>unit_to_string\<close>: \<^verbatim>\<open>None\<close>, a \<^verbatim>\<open>str\<close>, an instance of \<^verbatim>\<open>u.Unit\<close>, a
  \<^verbatim>\<open>Quantity\<close> (given by its unit), or an object of any other type.
\<close>

datatype 'u unit_arg = ArgNone | ArgStr string | ArgUnit 'u | ArgQuantity 'u | ArgOther

fun unit_to_string :: "('u, 'ns) astropy \<Rightarrow> 'u unit_arg \<Rightarrow> exn + string" where
  "unit_to_string lib ArgNone = Inr []"
| "unit_to_string lib (ArgStr s) = Inr s"
| "unit_to_string lib (ArgUnit x) = Inr (u_to_string lib x)"
| "unit_to_string lib (ArgQuantity x) = Inr (u_to_string lib x)"
| "unit_to_string lib ArgOther = Inl ValueError"

text \<open>Python's \<^verbatim>\<open>float(v)\<close> on a configuration value.\<close>

fun py_float :: "('u, 'ns) astropy \<Rightarrow> yval \<Rightarrow> exn + real" where
  "py_float lib YNull = Inl TypeError"
| "py_float lib (YNum r) = Inr r"
| "py_float lib (YStr s) =
     (case py_float_of_str lib s of None \<Rightarrow> Inl ValueError | Some r \<Rightarrow> Inr r)"

text \<open>\<^verbatim>\<open>d[k]\<close> on a dictionary.\<close>

definition getitem :: "('k \<rightharpoonup> 'v) \<Rightarrow> 'k \<Rightarrow> exn + 'v" where
  "getitem d k = (case d k of None \<Rightarrow> Inl KeyError | Some v \<Rightarrow> Inr v)"

text \<open>
  The branch of \<^verbatim>\<open>add_component_unit\<close> for a string found in \<^verbatim>\<open>registered_units\<close>
  (lines 550 to 562), in the order in which the source reads the alias record.
\<close>

definition registered_branch ::
  "('u, 'ns) astropy \<Rightarrow> ydict \<Rightarrow> string \<Rightarrow> ('u, 'ns) world
     \<Rightarrow> exn + ('u CubeVizUnit \<times> ('u, 'ns) world)" where
  "registered_branch lib registered_unit unit_string0 w =
     (let unit_string1 = (case registered_unit ''astropy_unit_string'' of
                            Some v \<Rightarrow> v
                          | None \<Rightarrow> YStr unit_string0);
          astropy_unit = string_to_unit lib (enabled_units w) unit_string1
      in
      case getitem registered_unit ''numeric'' of
        Inl e \<Rightarrow> Inl e
      | Inr numeric_value \<Rightarrow>
          (case (if truthy numeric_value then py_float lib numeric_value
                 else (case astropy_unit of
                         None \<Rightarrow> Inl AttributeError
                       | Some a \<Rightarrow> Inr (u_scale lib a))) of
             Inl e \<Rightarrow> Inl e
           | Inr numeric0 \<Rightarrow>
               (case getitem registered_unit ''spectral_flux_density'' of
                  Inl e \<Rightarrow> Inl e
                | Inr sfd_value \<Rightarrow>
                    (case getitem registered_unit ''area'' of
                       Inl e \<Rightarrow> Inl e
                     | Inr area_value \<Rightarrow>
                         Inr (SpectralFluxDensity_init lib astropy_unit unit_string1
                                (Some numeric0)
                                (string_to_unit lib (enabled_units w) sfd_value)
                                (string_to_unit lib (enabled_units w) area_value)
                                True w)))))"

text \<open>The branch for any other non-empty string (lines 564 to 572).\<close>

definition unregistered_branch ::
  "('u, 'ns) astropy \<Rightarrow> string \<Rightarrow> ('u, 'ns) world \<Rightarrow> 'u CubeVizUnit \<times> ('u, 'ns) world" where
  "unregistered_branch lib unit_string0 w =
     (case string_to_unit lib (enabled_units w) (YStr unit_string0) of
        Some a \<Rightarrow>
          if is_spectral_flux_density lib a then
            SpectralFluxDensity_init lib (Some a) (YStr unit_string0)
              (Some (u_scale lib a))
              (string_to_unit lib (enabled_units w) (YStr (u_to_string_unscaled lib a)))
              None False w
          else (UnknownUnit_init (Some a) (YStr unit_string0), w)
      | None \<Rightarrow> (UnknownUnit_init None (YStr unit_string0), w))"

text \<open>
  \<^verbatim>\<open>add_component_unit\<close>. \<open>component_id\<close> is \<^verbatim>\<open>str(component_id)\<close>. Every exception
  is raised before the first assignment, so a failing call leaves the controller and
  the globals as they were.
\<close>

definition add_component_unit ::
  "('u, 'ns) astropy \<Rightarrow> 'u FluxUnitController \<Rightarrow> string \<Rightarrow> 'u unit_arg \<Rightarrow> ('u, 'ns) world
     \<Rightarrow> exn + ('u CubeVizUnit \<times> 'u FluxUnitController \<times> ('u, 'ns) world)" where
  "add_component_unit lib self component_id unit_arg w =
     (case unit_to_string lib unit_arg of
        Inl e \<Rightarrow> Inl e
      | Inr unit_string0 \<Rightarrow>
          (case (if unit_string0 = [] then Inr (NoneUnit_init, w)
                 else (case registered_units self unit_string0 of
                         Some registered_unit \<Rightarrow>
                           registered_branch lib registered_unit unit_string0 w
                       | None \<Rightarrow> Inr (unregistered_branch lib unit_string0 w))) of
             Inl e \<Rightarrow> Inl e
           | Inr (cubeviz_unit, w') \<Rightarrow>
               Inr (cubeviz_unit,
                    self\<lparr>components := (components self)(component_id \<mapsto> cubeviz_unit)\<rparr>,
                    w')))"

definition remove_component_unit ::
  "'u FluxUnitController \<Rightarrow> string \<Rightarrow> 'u FluxUnitController" where
  "remove_component_unit self component_id =
     (if component_id \<in> dom (components self)
      then self\<lparr>components := (components self)(component_id := None)\<rparr>
      else self)"

text \<open>\<^verbatim>\<open>get_component_unit\<close>: the result \<open>None\<close> is Python's \<^verbatim>\<open>None\<close>.\<close>

definition get_component_unit :: "'u FluxUnitController \<Rightarrow> string \<Rightarrow> 'u option" where
  "get_component_unit self component_id =
     (case components self component_id of
        Some cubeviz_unit \<Rightarrow> unit (attrs cubeviz_unit)
      | None \<Rightarrow> None)"

subsection \<open>A small instance of the astropy interface\<close>

text \<open>
  A unit is a name, a scale and a physical type; a string parses when it is the name
  of a built-in or enabled unit, a number parses to a scaled dimensionless unit. The
  instance serves to run the definitions above on concrete inputs.
\<close>

datatype ex_unit = ExUnit (ex_name: string) (ex_scale: real) (ex_physical_type: string)

definition ex_Jy :: ex_unit where
  "ex_Jy = ExUnit ''Jy'' 1 ''spectral flux density''"

definition ex_mJy :: ex_unit where
  "ex_mJy = ExUnit ''mJy'' 1 ''spectral flux density''"

definition ex_uJy :: ex_unit where
  "ex_uJy = ExUnit ''uJy'' 1 ''spectral flux density''"

definition ex_fnu :: ex_unit where
  "ex_fnu = ExUnit ''erg / (cm2 Hz s)'' 1 ''spectral flux density''"

definition ex_flam_um :: ex_unit where
  "ex_flam_um = ExUnit ''erg / (cm2 s um)'' 1 ''spectral flux density wav''"

definition ex_flam :: ex_unit where
  "ex_flam = ExUnit ''erg / (Angstrom cm2 s)'' 1 ''spectral flux density wav''"

definition ex_flux :: ex_unit where
  "ex_flux = ExUnit ''erg / (cm2 s)'' 1 ''energy flux''"

definition ex_pix :: ex_unit where
  "ex_pix = ExUnit ''pix'' 1 ''unknown''"

definition ex_sr :: ex_unit where
  "ex_sr = ExUnit ''sr'' 1 ''solid angle''"

definition ex_deg :: ex_unit where
  "ex_deg = ExUnit ''deg'' 1 ''angle''"

definition ex_Jy_per_pix :: ex_unit where
  "ex_Jy_per_pix = ExUnit ''Jy / pix'' 1 ''surface brightness''"

definition ex_MJy :: ex_unit where
  "ex_MJy = ExUnit ''MJy'' 1 ''spectral flux density''"

definition ex_1e6_Jy :: ex_unit where
  "ex_1e6_Jy = ExUnit ''1e+06 Jy'' 1000000 ''spectral flux density''"

text \<open>
  astropy's \<^verbatim>\<open>==\<close> compares units by value, not by name: \<^verbatim>\<open>u.Unit("1e6 Jy") == u.MJy\<close>
  holds although the two print differently.
\<close>

definition ex_eq :: "ex_unit \<Rightarrow> ex_unit \<Rightarrow> bool" where
  "ex_eq a b = (a = b \<or> (a = ex_1e6_Jy \<and> b = ex_MJy) \<or> (a = ex_MJy \<and> b = ex_1e6_Jy))"

definition ex_builtin :: "ex_unit list" where
  "ex_builtin =
     [ex_Jy, ex_mJy, ex_uJy, ex_fnu, ex_flam_um, ex_flam, ex_flux, ex_pix, ex_sr, ex_deg,
      ex_Jy_per_pix, ex_MJy]"

fun ex_Unit :: "ex_unit list \<Rightarrow> yval \<Rightarrow> ex_unit option" where
  "ex_Unit ns YNull = None"
| "ex_Unit ns (YNum r) = Some (ExUnit [] r ''dimensionless'')"
| "ex_Unit ns (YStr s) = find (\<lambda>x. ex_name x = s) (ex_builtin @ ns)"

definition ex_def_unit :: "string \<Rightarrow> ex_unit option \<Rightarrow> ex_unit" where
  "ex_def_unit name base =
     ExUnit name 1 (case base of None \<Rightarrow> ''unknown'' | Some b \<Rightarrow> ex_physical_type b)"

definition ex_add_enabled_units :: "ex_unit \<Rightarrow> ex_unit list \<Rightarrow> exn + ex_unit list" where
  "ex_add_enabled_units x ns = Inr (if x \<in> set ns then ns else ns @ [x])"

definition ex_pow2 :: "ex_unit \<Rightarrow> ex_unit" where
  "ex_pow2 x =
     ExUnit (ex_name x @ ''2'') (ex_scale x * ex_scale x)
       (if ex_physical_type x = ''angle'' then ''solid angle'' else ''unknown'')"

definition ex_float_of_str :: "string \<Rightarrow> real option" where
  "ex_float_of_str s =
     (if s = ''1.0'' then Some 1 else if s = ''0.5'' then Some (1 / 2) else None)"

definition example_astropy :: "(ex_unit, ex_unit list) astropy" where
  "example_astropy =
     \<lparr>u_Unit = ex_Unit,
      u_to_string = ex_name,
      u_to_string_unscaled = ex_name,
      u_scale = ex_scale,
      u_physical_type = ex_physical_type,
      u_eq = ex_eq,
      u_eq_str = (\<lambda>a s. ex_name a = s),
      u_def_unit = ex_def_unit,
      u_add_enabled_units = ex_add_enabled_units,
      u_is_pix_equiv = (\<lambda>x. x = ex_pix \<or> x = ex_def_unit ''spaxel'' (Some ex_pix)),
      u_pow2 = ex_pow2,
      u_spectral_density = [(ex_flam, ex_fnu), (ex_flux, ex_flam)],
      u_degree_equivalent_units = [ex_deg],
      u_uJy = ex_uJy,
      u_mJy = ex_mJy,
      u_Jy = ex_Jy,
      u_erg_cm2_s_Hz = ex_fnu,
      u_erg_cm2_s_um = ex_flam_um,
      u_erg_cm2_s = ex_flux,
      u_pix = ex_pix,
      u_steradian = ex_sr,
      py_float_of_str = ex_float_of_str\<rparr>"

definition example_world :: "(ex_unit, ex_unit list) world" where
  "example_world =
     \<lparr>enabled_units = [],
      FLUX_UNIT_REGISTRY = FluxUnitRegistry_init,
      AREA_UNIT_REGISTRY = AreaUnitRegistry_init\<rparr>"

text \<open>
  A controller with two registered aliases, \<^verbatim>\<open>Jy/spaxel\<close> and \<^verbatim>\<open>MJy/sr\<close>, whose
  records have all fields, and no component yet; and a state of the globals in which
  the flux registry already holds two items.
\<close>

definition example_alias :: ydict where
  "example_alias =
     [''astropy_unit_string'' \<mapsto> YStr ''Jy / pix'',
      ''numeric'' \<mapsto> YStr ''1.0'',
      ''spectral_flux_density'' \<mapsto> YStr ''Jy'',
      ''area'' \<mapsto> YStr ''pix'']"

definition example_alias_MJy :: ydict where
  "example_alias_MJy =
     [''numeric'' \<mapsto> YStr ''1.0'',
      ''spectral_flux_density'' \<mapsto> YStr ''MJy'',
      ''area'' \<mapsto> YStr ''sr'']"

definition example_controller :: "ex_unit FluxUnitController" where
  "example_controller =
     \<lparr>registered_units = [''Jy/spaxel'' \<mapsto> example_alias, ''MJy/sr'' \<mapsto> example_alias_MJy],
      components = Map.empty\<rparr>"


text \<open>A state in which the flux registry holds a unit equal to \<^verbatim>\<open>MJy\<close> under another name.\<close>

definition example_world_with_equal_unit :: "(ex_unit, ex_unit list) world" where
  "example_world_with_equal_unit =
     example_world\<lparr>FLUX_UNIT_REGISTRY := \<lparr>runtime_defined_units = [PyUnit ex_1e6_Jy]\<rparr>\<rparr>"

text \<open>
  A controller whose only alias, \<^verbatim>\<open>MJy per sr\<close>, is a string that does not parse; its
  record has the three fields that the code reads, with a null \<^verbatim>\<open>numeric\<close>, and no
  \<^verbatim>\<open>astropy_unit_string\<close>.
\<close>

definition example_alias_null_numeric :: ydict where
  "example_alias_null_numeric =
     [''numeric'' \<mapsto> YNull,
      ''spectral_flux_density'' \<mapsto> YStr ''MJy'',
      ''area'' \<mapsto> YStr ''sr'']"

definition example_controller_null_numeric :: "ex_unit FluxUnitController" where
  "example_controller_null_numeric =
     \<lparr>registered_units = [''MJy per sr'' \<mapsto> example_alias_null_numeric],
      components = Map.empty\<rparr>"


definition example_world_after :: "(ex_unit, ex_unit list) world" where
  "example_world_after =
     example_world\<lparr>FLUX_UNIT_REGISTRY :=
       \<lparr>runtime_defined_units = [PyStr ''Jy'', PyUnit ex_mJy, PyUnit ex_MJy]\<rparr>\<rparr>"




section \<open>Properties\<close>

subsection \<open>Registry listings\<close>

lemma sorted_set_sorted: "sorted (sorted_set xs)"
  by (simp add: sorted_set_def)

lemma sorted_set_distinct: "distinct (sorted_set xs)"
  by (simp add: sorted_set_def)


lemma flux_get_unit_list_sorted_distinct:
  "sorted (FluxUnitRegistry_get_unit_list lib reg)
   \<and> distinct (FluxUnitRegistry_get_unit_list lib reg)"
  by (simp add: FluxUnitRegistry_get_unit_list_def Let_def sorted_set_sorted sorted_set_distinct)

lemma area_get_unit_list_sorted_distinct:
  assumes "AreaUnitRegistry_get_unit_list lib reg pixel_only solid_angle_only ns = Inr (l, ns')"
  shows "sorted l \<and> distinct l"
  using assms
  by (auto simp: AreaUnitRegistry_get_unit_list_def sorted_set_sorted sorted_set_distinct
           split: if_splits sum.splits prod.splits)

lemma example_area_listing:
  "AreaUnitRegistry_get_unit_list example_astropy
     (foldl (apply_area_call example_astropy) AreaUnitRegistry_init
        [Add_pixel_unit (PyStr ''spaxel''), Add_solid_angle_unit (PyUnit ex_sr),
         Add_pixel_unit (PyStr ''spaxel''), Add_pixel_unit PyOther])
     False False []
   = Inr ([''deg2'', ''pix'', ''spaxel'', ''sr''], [ExUnit ''spaxel'' 1 ''unknown''])"
  by code_simp

text \<open>
  Claim C2. After any sequence of \<^verbatim>\<open>add_unit\<close> calls on a fresh flux registry, and any
  sequence of \<^verbatim>\<open>add_pixel_unit\<close> and \<^verbatim>\<open>add_solid_angle_unit\<close> calls on a fresh area
  registry, with arguments of any kind (strings, units, duplicates, other objects),
  every list that \<^verbatim>\<open>get_unit_list\<close> returns is sorted in ascending lexicographic order
  and has no duplicate entry. The flux listing always returns; the area listing
  returns unless astropy refuses to enable \<^verbatim>\<open>spaxel\<close>.
\<close>

theorem C2_listings_sorted_without_duplicates:
  "sorted (FluxUnitRegistry_get_unit_list lib
             (foldl (FluxUnitRegistry_add_unit lib) FluxUnitRegistry_init items))
   \<and> distinct (FluxUnitRegistry_get_unit_list lib
                 (foldl (FluxUnitRegistry_add_unit lib) FluxUnitRegistry_init items))
   \<and> (\<forall>l ns'. AreaUnitRegistry_get_unit_list lib
                  (foldl (apply_area_call lib) AreaUnitRegistry_init calls)
                  pixel_only solid_angle_only ns = Inr (l, ns')
               \<longrightarrow> sorted l \<and> distinct l)"
proof (intro conjI allI impI)
  show "sorted (FluxUnitRegistry_get_unit_list lib
                  (foldl (FluxUnitRegistry_add_unit lib) FluxUnitRegistry_init items))"
    by (simp add: flux_get_unit_list_sorted_distinct)
  show "distinct (FluxUnitRegistry_get_unit_list lib
                    (foldl (FluxUnitRegistry_add_unit lib) FluxUnitRegistry_init items))"
    by (simp add: flux_get_unit_list_sorted_distinct)
next
  fix l ns'
  assume "AreaUnitRegistry_get_unit_list lib
            (foldl (apply_area_call lib) AreaUnitRegistry_init calls)
            pixel_only solid_angle_only ns = Inr (l, ns')"
  then have both: "sorted l \<and> distinct l" by (rule area_get_unit_list_sorted_distinct)
  from both show "sorted l" by simp
  from both show "distinct l" by simp
qed

theorem C2_listings_sorted_without_duplicates_witness:
  "AreaUnitRegistry_get_unit_list example_astropy
     (foldl (apply_area_call example_astropy) AreaUnitRegistry_init
        [Add_pixel_unit (PyStr ''spaxel''), Add_solid_angle_unit (PyUnit ex_sr),
         Add_pixel_unit (PyStr ''spaxel''), Add_pixel_unit PyOther])
     False False []
   = Inr ([''deg2'', ''pix'', ''spaxel'', ''sr''], [ExUnit ''spaxel'' 1 ''unknown''])
   \<and> sorted [''deg2'', ''pix'', ''spaxel'', ''sr'']
   \<and> distinct [''deg2'', ''pix'', ''spaxel'', ''sr'']"
  using example_area_listing
    C2_listings_sorted_without_duplicates
      [of example_astropy "[]"
          "[Add_pixel_unit (PyStr ''spaxel''), Add_solid_angle_unit (PyUnit ex_sr),
            Add_pixel_unit (PyStr ''spaxel''), Add_pixel_unit PyOther]"
          False False "[]"]
  by blast

subsection \<open>Redshift and wavelengths\<close>

text \<open>
  Claim C3. When the controller holds wavelengths \<open>ws\<close> and \<^verbatim>\<open>redshift_z\<close> is assigned a
  number \<open>z\<close> that differs from the stored redshift, with \<open>1 + z\<close> not zero, the setter
  returns without an exception; afterwards the stored wavelengths are \<open>ws / (1 + z)\<close>,
  the same values are the last ones sent to the slice controller, the wavelength
  label is the rest-wavelength text when \<open>z > 0\<close> and the observed-wavelength text
  otherwise, and the redshift is emitted. Before that the layout receives
  \<open>(1 + z) * ws\<close> when \<open>z > 0\<close> and \<open>ws\<close> otherwise. With wavelengths \<open>[1, 2, 3]\<close> and
  \<open>z = 1\<close> the stored wavelengths are \<open>[0.5, 1, 1.5]\<close> in metres.
\<close>

theorem C3_redshift_transform:
  assumes orig: "original_wavelengths self = Some ws"
    and changed: "redshift_z self \<noteq> Some z"
    and divisor: "1 + z \<noteq> 0"
  shows "redshift_z_setter self (Some z) =
           (None,
            self\<lparr>redshift_z := Some z,
                 wavelength_textbox_label :=
                   (if z > 0 then REST_WAVELENGTH_TEXT else OBS_WAVELENGTH_TEXT),
                 wavelengths := Some (map (\<lambda>w. w / (1 + z)) ws)\<rparr>,
            [Slice_wavelength_label
               (if z > 0 then REST_WAVELENGTH_TEXT else OBS_WAVELENGTH_TEXT),
             Layout_set_wavelengths
               (WArray (if z > 0 then map (\<lambda>w. (1 + z) * w) ws else ws)) (new_units self),
             Slice_set_wavelengths (WArray (map (\<lambda>w. w / (1 + z)) ws)) (new_units self),
             Emit_change_redshift z])"
  using orig changed
  by (simp add: redshift_z_setter_def Let_def np_divide_def np_scale_def)

theorem C3_redshift_transform_witness:
  "original_wavelengths (UnitController_init (Some [1, 2, 3]) OBS_WAVELENGTH_TEXT) = Some [1, 2, 3]
   \<and> redshift_z (UnitController_init (Some [1, 2, 3]) OBS_WAVELENGTH_TEXT) \<noteq> Some 1
   \<and> 1 + (1::real) \<noteq> 0
   \<and> wavelengths (fst (snd (redshift_z_setter
          (UnitController_init (Some [1, 2, 3]) OBS_WAVELENGTH_TEXT) (Some 1))))
       = Some [1 / 2, 1, 3 / 2]
   \<and> wavelength_textbox_label (fst (snd (redshift_z_setter
          (UnitController_init (Some [1, 2, 3]) OBS_WAVELENGTH_TEXT) (Some 1))))
       = REST_WAVELENGTH_TEXT
   \<and> new_units (UnitController_init (Some [1, 2, 3]) OBS_WAVELENGTH_TEXT) = U_m"
proof -
  have h1: "original_wavelengths (UnitController_init (Some [1, 2, 3]) OBS_WAVELENGTH_TEXT)
              = Some [1, 2, 3]"
    by (simp add: UnitController_init_def)
  have h2: "redshift_z (UnitController_init (Some [1, 2, 3]) OBS_WAVELENGTH_TEXT) \<noteq> Some 1"
    by (simp add: UnitController_init_def)
  have h3: "1 + (1::real) \<noteq> 0" by simp
  have h4: "new_units (UnitController_init (Some [1, 2, 3]) OBS_WAVELENGTH_TEXT) = U_m"
    by (simp add: UnitController_init_def)
  show ?thesis
    using h1 h2 h3 h4 C3_redshift_transform [OF h1 h2 h3] by simp
qed

text \<open>
  Claim C4. Assigning \<^verbatim>\<open>redshift_z\<close> the value that the controller already stores,
  directly or through the \<^verbatim>\<open>change_redshift\<close> listener, raises nothing, leaves every
  attribute of the controller as it was and makes no call on the layout, the slice
  controller or the dispatch channel.
\<close>

theorem C4_same_redshift_is_noop:
  "redshift_z_setter self (redshift_z self) = (None, self, [])
   \<and> change_redshift self (redshift_z self) = (None, self, [])"
  by (simp add: redshift_z_setter_def change_redshift_def)

text \<open>
  Outside the claims: assigning \<^verbatim>\<open>None\<close> to a controller whose redshift is a number
  passes the label branch, which tests for \<^verbatim>\<open>None\<close>, and then raises \<^verbatim>\<open>TypeError\<close> at
  \<^verbatim>\<open>1 + self._redshift_z\<close>; the redshift and the label are already changed by then.
\<close>

lemma redshift_None_raises:
  assumes "redshift_z self \<noteq> None"
  shows "fst (redshift_z_setter self None) = Some TypeError
         \<and> redshift_z (fst (snd (redshift_z_setter self None))) = None
         \<and> wavelengths (fst (snd (redshift_z_setter self None))) = wavelengths self"
  using assms by (simp add: redshift_z_setter_def Let_def)

text \<open>
  Claim C5. Without wavelengths \<^verbatim>\<open>convert_wavelengths\<close> returns \<^verbatim>\<open>False\<close> and raises
  nothing. With wavelengths it returns an array of the same length whose values,
  measured in the new unit, are the same lengths as the inputs measured in the old
  unit. In particular 1000 nm converts to 10000 Angstrom.
\<close>

theorem C5_convert_wavelengths:
  "convert_wavelengths None old_unit new_unit = WFalse
   \<and> (\<exists>vs. convert_wavelengths (Some ws) old_unit new_unit = WArray vs
            \<and> length vs = length ws
            \<and> map (\<lambda>v. v * si_scale new_unit) vs = map (\<lambda>w. w * si_scale old_unit) ws)
   \<and> convert_wavelengths (Some [1000]) U_nm U_AA = WArray [10000]"
proof -
  have pos: "si_scale new_unit \<noteq> 0" by (cases new_unit) simp_all
  show ?thesis using pos by (simp add: convert_wavelengths_def comp_def)
qed

text \<open>
  Claim C8. The claim says that \<^verbatim>\<open>on_combobox_change\<close> pushes nothing to the layout when
  the controller has no wavelengths. The code differs: \<^verbatim>\<open>convert_wavelengths\<close> returns
  \<^verbatim>\<open>False\<close>, the caller tests for \<^verbatim>\<open>None\<close>, and so \<^verbatim>\<open>False\<close> is stored as the new
  wavelengths and passed to \<^verbatim>\<open>_cv_layout.set_wavelengths\<close>. Here a controller built
  without wavelengths is switched to nanometres.
\<close>

theorem C8_sentinel_reaches_layout:
  "on_combobox_change (UnitController_init None OBS_WAVELENGTH_TEXT) ''Nanometer''
   = (None,
      (UnitController_init None OBS_WAVELENGTH_TEXT)
        \<lparr>new_units := U_nm, new_wavelengths := WFalse\<rparr>,
      [Layout_set_wavelengths WFalse U_nm])"
  by (simp add: on_combobox_change_def UnitController_init_def convert_wavelengths_def Let_def)

subsection \<open>Classification of component units\<close>

lemma add_component_unit_empty:
  assumes "unit_to_string lib arg = Inr []"
  shows "add_component_unit lib self cid arg w
           = Inr (NoneUnit_init,
                  self\<lparr>components := (components self)(cid \<mapsto> NoneUnit_init)\<rparr>, w)"
  using assms by (simp add: add_component_unit_def)


lemma add_component_unit_registered_raises:
  assumes "unit_to_string lib arg = Inr s" and "s \<noteq> []"
    and "registered_units self s = Some r"
    and "registered_branch lib r s w = Inl e"
  shows "add_component_unit lib self cid arg w = Inl e"
  using assms by (simp add: add_component_unit_def)

lemma add_component_unit_unregistered:
  assumes "unit_to_string lib arg = Inr s" and "s \<noteq> []"
    and "registered_units self s = None"
    and "unregistered_branch lib s w = (cu, w')"
  shows "add_component_unit lib self cid arg w
           = Inr (cu, self\<lparr>components := (components self)(cid \<mapsto> cu)\<rparr>, w')"
  using assms by (simp add: add_component_unit_def)

lemma unregistered_branch_unparseable:
  assumes "s \<noteq> []" and "u_Unit lib (enabled_units w) (YStr s) = None"
  shows "unregistered_branch lib s w = (UnknownUnit_init None (YStr s), w)"
  using assms by (simp add: unregistered_branch_def string_to_unit_def)

lemma registered_branch_without_numeric_or_unit:
  assumes "registered_unit ''astropy_unit_string'' = None"
    and "registered_unit ''numeric'' = Some numeric_value"
    and "\<not> truthy numeric_value"
    and "u_Unit lib (enabled_units w) (YStr s) = None"
  shows "registered_branch lib registered_unit s w = Inl AttributeError"
  using assms by (simp add: registered_branch_def getitem_def string_to_unit_def Let_def)

text \<open>
  Claim C1. The claim has two halves. An empty or absent unit string gives a \<^verbatim>\<open>NoneUnit\<close>:
  that is \<open>add_component_unit_empty\<close> above. A unit string that is a key of
  \<^verbatim>\<open>registered_units\<close> gives a \<^verbatim>\<open>SpectralFluxDensity\<close> with \<^verbatim>\<open>is_formatted=True\<close>: here the
  code differs. When the alias string itself does not parse and the record's \<^verbatim>\<open>numeric\<close>
  is null, \<^verbatim>\<open>astropy_unit\<close> is \<^verbatim>\<open>None\<close> and line 557 reads \<^verbatim>\<open>astropy_unit.scale\<close>,
  which raises \<^verbatim>\<open>AttributeError\<close>; the branch for unregistered strings tests
  \<^verbatim>\<open>astropy_unit is not None\<close> first. The alias below is registered, its record has
  \<^verbatim>\<open>numeric\<close>, \<^verbatim>\<open>spectral_flux_density\<close> and \<^verbatim>\<open>area\<close>, and the call raises.
\<close>

theorem C1_unparsed_alias_without_numeric_raises:
  "registered_units example_controller_null_numeric ''MJy per sr''
     = Some example_alias_null_numeric
   \<and> example_alias_null_numeric ''numeric'' = Some YNull
   \<and> example_alias_null_numeric ''spectral_flux_density'' = Some (YStr ''MJy'')
   \<and> example_alias_null_numeric ''area'' = Some (YStr ''sr'')
   \<and> u_Unit example_astropy (enabled_units example_world) (YStr ''MJy per sr'') = None
   \<and> add_component_unit example_astropy example_controller_null_numeric ''flux''
        (ArgStr ''MJy per sr'') example_world
      = Inl AttributeError"
proof -
  have reg: "registered_units example_controller_null_numeric ''MJy per sr''
               = Some example_alias_null_numeric"
    by (simp add: example_controller_null_numeric_def)
  have f0: "example_alias_null_numeric ''astropy_unit_string'' = None"
    by (simp add: example_alias_null_numeric_def)
  have f1: "example_alias_null_numeric ''numeric'' = Some YNull"
    by (simp add: example_alias_null_numeric_def)
  have f2: "example_alias_null_numeric ''spectral_flux_density'' = Some (YStr ''MJy'')"
    by (simp add: example_alias_null_numeric_def)
  have f3: "example_alias_null_numeric ''area'' = Some (YStr ''sr'')"
    by (simp add: example_alias_null_numeric_def)
  have unparsed: "u_Unit example_astropy (enabled_units example_world) (YStr ''MJy per sr'')
                    = None"
    by (simp add: example_astropy_def example_world_def ex_builtin_def ex_Jy_def ex_mJy_def
          ex_uJy_def ex_fnu_def ex_flam_um_def ex_flam_def ex_flux_def ex_pix_def ex_sr_def
          ex_deg_def ex_Jy_per_pix_def ex_MJy_def)
  have falsy: "\<not> truthy YNull" by simp
  have branch: "registered_branch example_astropy example_alias_null_numeric ''MJy per sr''
                  example_world = Inl AttributeError"
    using f0 f1 falsy unparsed by (rule registered_branch_without_numeric_or_unit)
  have str: "unit_to_string example_astropy (ArgStr ''MJy per sr'') = Inr ''MJy per sr''"
    by simp
  have ne: "''MJy per sr'' \<noteq> []" by simp
  have raises: "add_component_unit example_astropy example_controller_null_numeric ''flux''
        (ArgStr ''MJy per sr'') example_world = Inl AttributeError"
    using str ne reg branch by (rule add_component_unit_registered_raises)
  show ?thesis
    apply (intro conjI)
         apply (rule reg)
        apply (rule f1)
       apply (rule f2)
      apply (rule f3)
     apply (rule unparsed)
    apply (rule raises)
    done
qed

text \<open>
  A record without the field \<^verbatim>\<open>area\<close> stops the same branch with \<^verbatim>\<open>KeyError\<close>.
\<close>

lemma example_incomplete_alias:
  "registered_branch example_astropy
     [''numeric'' \<mapsto> YStr ''1.0'', ''spectral_flux_density'' \<mapsto> YStr ''Jy'']
     ''Jy/spaxel'' example_world = Inl KeyError"
  by (simp add: registered_branch_def getitem_def example_astropy_def ex_float_of_str_def)



lemma example_furlong_unparseable:
  "u_Unit example_astropy (enabled_units example_world) (YStr ''furlong'') = None"
  by (simp add: example_astropy_def example_world_def ex_builtin_def ex_Jy_def ex_mJy_def
        ex_uJy_def ex_fnu_def ex_flam_um_def ex_flam_def ex_flux_def ex_pix_def ex_sr_def
        ex_deg_def ex_Jy_per_pix_def ex_MJy_def)

lemma example_furlong_unregistered:
  "registered_units example_controller ''furlong'' = None"
  by (simp add: example_controller_def)




text \<open>
  Claim C10. \<^verbatim>\<open>get_component_unit\<close> returns \<^verbatim>\<open>None\<close> for a component identifier that is
  not in the component map. It also returns \<^verbatim>\<open>None\<close> for a component that
  \<^verbatim>\<open>add_component_unit\<close> has just stored as a \<^verbatim>\<open>NoneUnit\<close> (empty unit string), and for
  one stored as an \<^verbatim>\<open>UnknownUnit\<close> whose unit string is not registered and does not
  parse. The query alone therefore does not tell an unknown component from a known
  component without a unit.
\<close>

theorem C10_absent_and_unitless_look_alike:
  "(components self cid = None \<longrightarrow> get_component_unit self cid = None)
   \<and> (unit_to_string lib arg = Inr [] \<longrightarrow>
        (\<exists>cu self' w'. add_component_unit lib self cid arg w = Inr (cu, self', w')
            \<and> is_NoneUnit cu \<and> components self' cid = Some cu
            \<and> get_component_unit self' cid = None))
   \<and> (unit_to_string lib arg = Inr s \<and> s \<noteq> [] \<and> registered_units self s = None
        \<and> u_Unit lib (enabled_units w) (YStr s) = None \<longrightarrow>
        (\<exists>cu self' w'. add_component_unit lib self cid arg w = Inr (cu, self', w')
            \<and> is_UnknownUnit cu \<and> components self' cid = Some cu
            \<and> get_component_unit self' cid = None))"
proof (intro conjI impI)
  assume "components self cid = None"
  then show "get_component_unit self cid = None" by (simp add: get_component_unit_def)
next
  assume "unit_to_string lib arg = Inr []"
  then have "add_component_unit lib self cid arg w
           = Inr (NoneUnit_init,
                  self\<lparr>components := (components self)(cid \<mapsto> NoneUnit_init)\<rparr>, w)"
    by (rule add_component_unit_empty)
  then show "\<exists>cu self' w'. add_component_unit lib self cid arg w = Inr (cu, self', w')
            \<and> is_NoneUnit cu \<and> components self' cid = Some cu
            \<and> get_component_unit self' cid = None"
    by (simp add: get_component_unit_def NoneUnit_init_def CubeVizUnit_init_def)
next
  assume h: "unit_to_string lib arg = Inr s \<and> s \<noteq> [] \<and> registered_units self s = None
        \<and> u_Unit lib (enabled_units w) (YStr s) = None"
  then have b: "unregistered_branch lib s w = (UnknownUnit_init None (YStr s), w)"
    by (simp add: unregistered_branch_unparseable)
  from h have "add_component_unit lib self cid arg w
           = Inr (UnknownUnit_init None (YStr s),
                  self\<lparr>components := (components self)(cid \<mapsto> UnknownUnit_init None (YStr s))\<rparr>, w)"
    using add_component_unit_unregistered [OF _ _ _ b] by blast
  then show "\<exists>cu self' w'. add_component_unit lib self cid arg w = Inr (cu, self', w')
            \<and> is_UnknownUnit cu \<and> components self' cid = Some cu
            \<and> get_component_unit self' cid = None"
    by (simp add: get_component_unit_def UnknownUnit_init_def CubeVizUnit_init_def)
qed

theorem C10_absent_and_unitless_look_alike_witness:
  "components example_controller ''ghost'' = None
   \<and> get_component_unit example_controller ''ghost'' = None
   \<and> unit_to_string example_astropy ArgNone = Inr []
   \<and> (\<exists>cu self' w'. add_component_unit example_astropy example_controller ''mask'' ArgNone
                       example_world = Inr (cu, self', w')
          \<and> is_NoneUnit cu \<and> components self' ''mask'' = Some cu
          \<and> get_component_unit self' ''mask'' = None)
   \<and> unit_to_string example_astropy (ArgStr ''furlong'') = Inr ''furlong''
   \<and> registered_units example_controller ''furlong'' = None
   \<and> u_Unit example_astropy (enabled_units example_world) (YStr ''furlong'') = None
   \<and> (\<exists>cu self' w'. add_component_unit example_astropy example_controller ''flux''
                       (ArgStr ''furlong'') example_world = Inr (cu, self', w')
          \<and> is_UnknownUnit cu \<and> components self' ''flux'' = Some cu
          \<and> get_component_unit self' ''flux'' = None)"
proof -
  have h0: "components example_controller ''ghost'' = None"
    by (simp add: example_controller_def)
  have h1: "unit_to_string example_astropy ArgNone = Inr []" by simp
  have h2a: "unit_to_string example_astropy (ArgStr ''furlong'') = Inr ''furlong''" by simp
  have h2: "unit_to_string example_astropy (ArgStr ''furlong'') = Inr ''furlong''
            \<and> ''furlong'' \<noteq> [] \<and> registered_units example_controller ''furlong'' = None
            \<and> u_Unit example_astropy (enabled_units example_world) (YStr ''furlong'') = None"
    using example_furlong_unregistered example_furlong_unparseable by simp
  note a = C10_absent_and_unitless_look_alike
             [of example_controller "''ghost''" example_astropy ArgNone example_world
                 "''furlong''"]
  note b = C10_absent_and_unitless_look_alike
             [of example_controller "''mask''" example_astropy ArgNone example_world
                 "''furlong''"]
  note c = C10_absent_and_unitless_look_alike
             [of example_controller "''flux''" example_astropy "ArgStr ''furlong''"
                 example_world "''furlong''"]
  note c0 = a [THEN conjunct1, THEN mp, OF h0]
  note c1 = b [THEN conjunct2, THEN conjunct1, THEN mp, OF h1]
  note c2 = c [THEN conjunct2, THEN conjunct2, THEN mp, OF h2]
  show ?thesis
    apply (intro conjI)
           apply (rule h0)
          apply (rule c0)
         apply (rule h1)
        apply (rule c1)
       apply (rule h2a)
      apply (rule example_furlong_unregistered)
     apply (rule example_furlong_unparseable)
    apply (rule c2)
    done
qed

subsection \<open>Registered aliases and the flux registry\<close>









lemma example_MJy_listed_after:
  "''MJy'' \<in> set (FluxUnitRegistry_get_unit_list example_astropy
                      (FLUX_UNIT_REGISTRY example_world_after))"
  by code_simp








lemma example_equal_unit_held:
  "py_in example_astropy (PyUnit ex_MJy)
     (runtime_defined_units (FLUX_UNIT_REGISTRY example_world_with_equal_unit))"
  by (simp add: py_in_def example_world_with_equal_unit_def example_astropy_def ex_eq_def
        ex_MJy_def ex_1e6_Jy_def)




subsection \<open>Construction of the controller\<close>

lemma example_predefined_name:
  "try_define_unit example_astropy [''name'' \<mapsto> YStr ''Jy''] v ns = Inr v"
  by (simp add: try_define_unit_def example_astropy_def ex_builtin_def ex_Jy_def)

lemma example_new_name:
  "try_define_unit example_astropy [''name'' \<mapsto> YStr ''spaxel'', ''base'' \<mapsto> YStr ''pix''] None []
     = Inr (Some (ExUnit ''spaxel'' 1 ''unknown''))"
  by (simp add: try_define_unit_def example_astropy_def ex_builtin_def ex_Jy_def ex_mJy_def
        ex_uJy_def ex_fnu_def ex_flam_um_def ex_flam_def ex_flux_def ex_pix_def ex_sr_def
        ex_deg_def ex_Jy_per_pix_def ex_MJy_def ex_def_unit_def)

lemma example_register_spaxel:
  "register_new_unit example_astropy (ExUnit ''spaxel'' 1 ''unknown'') example_world
     = Inr \<lparr>enabled_units = [ExUnit ''spaxel'' 1 ''unknown''],
            FLUX_UNIT_REGISTRY = \<lparr>runtime_defined_units = []\<rparr>,
            AREA_UNIT_REGISTRY =
              \<lparr>runtime_solid_angle_units = [],
               runtime_pixel_units = [PyUnit (ExUnit ''spaxel'' 1 ''unknown'')]\<rparr>\<rparr>"
  by (simp add: register_new_unit_def example_astropy_def example_world_def
        ex_add_enabled_units_def is_spectral_flux_density_def ex_def_unit_def ex_pix_def
        AreaUnitRegistry_add_pixel_unit_def AreaUnitRegistry_init_def
        FluxUnitRegistry_init_def py_in_def Let_def)

lemma example_register_spaxel_again:
  "register_new_unit example_astropy (ExUnit ''spaxel'' 1 ''unknown'')
     \<lparr>enabled_units = [ExUnit ''spaxel'' 1 ''unknown''],
      FLUX_UNIT_REGISTRY = \<lparr>runtime_defined_units = []\<rparr>,
      AREA_UNIT_REGISTRY =
        \<lparr>runtime_solid_angle_units = [],
         runtime_pixel_units = [PyUnit (ExUnit ''spaxel'' 1 ''unknown'')]\<rparr>\<rparr>
     = Inr \<lparr>enabled_units = [ExUnit ''spaxel'' 1 ''unknown''],
            FLUX_UNIT_REGISTRY = \<lparr>runtime_defined_units = []\<rparr>,
            AREA_UNIT_REGISTRY =
              \<lparr>runtime_solid_angle_units = [],
               runtime_pixel_units = [PyUnit (ExUnit ''spaxel'' 1 ''unknown'')]\<rparr>\<rparr>"
  by (simp add: register_new_unit_def example_astropy_def
        ex_add_enabled_units_def is_spectral_flux_density_def ex_def_unit_def ex_pix_def
        AreaUnitRegistry_add_pixel_unit_def py_in_def Let_def ex_eq_def)

text \<open>
  Claim C7. The claim says that a configured unit whose name astropy already defines is
  reused and registered, and that construction completes. The code differs: when
  \<^verbatim>\<open>u.Unit(new_unit["name"])\<close> succeeds its result is dropped, so
  \<^verbatim>\<open>register_new_unit(new_astropy_unit)\<close> reads a variable that is unbound on the first
  iteration and still holds the previous unit on later ones. With \<^verbatim>\<open>Jy\<close> as the only
  configured unit the constructor raises \<^verbatim>\<open>UnboundLocalError\<close>; with \<^verbatim>\<open>spaxel\<close> followed
  by \<^verbatim>\<open>Jy\<close> it completes, registers \<^verbatim>\<open>spaxel\<close> twice and never registers \<^verbatim>\<open>Jy\<close>
  (the flux registry stays empty).
\<close>

theorem C7_constructor_skips_defined_names:
  "FluxUnitController_init example_astropy
     \<lparr>cfg_new_units = [(''unit1'', [''name'' \<mapsto> YStr ''Jy''])],
      cfg_registered_units = Map.empty\<rparr>
     example_world = Inl UnboundLocalError
   \<and> FluxUnitController_init example_astropy
       \<lparr>cfg_new_units =
          [(''unit1'', [''name'' \<mapsto> YStr ''spaxel'', ''base'' \<mapsto> YStr ''pix'']),
           (''unit2'', [''name'' \<mapsto> YStr ''Jy''])],
        cfg_registered_units = Map.empty\<rparr>
       example_world
     = Inr (\<lparr>registered_units = Map.empty, components = Map.empty\<rparr>,
            \<lparr>enabled_units = [ExUnit ''spaxel'' 1 ''unknown''],
             FLUX_UNIT_REGISTRY = \<lparr>runtime_defined_units = []\<rparr>,
             AREA_UNIT_REGISTRY =
               \<lparr>runtime_solid_angle_units = [],
                runtime_pixel_units = [PyUnit (ExUnit ''spaxel'' 1 ''unknown'')]\<rparr>\<rparr>)"
proof (intro conjI)
  show "FluxUnitController_init example_astropy
     \<lparr>cfg_new_units = [(''unit1'', [''name'' \<mapsto> YStr ''Jy''])],
      cfg_registered_units = Map.empty\<rparr>
     example_world = Inl UnboundLocalError"
    by (simp add: FluxUnitController_init_def example_predefined_name)
  have empty: "enabled_units example_world = []"
    by (simp add: example_world_def)
  show "FluxUnitController_init example_astropy
       \<lparr>cfg_new_units =
          [(''unit1'', [''name'' \<mapsto> YStr ''spaxel'', ''base'' \<mapsto> YStr ''pix'']),
           (''unit2'', [''name'' \<mapsto> YStr ''Jy''])],
        cfg_registered_units = Map.empty\<rparr>
       example_world
     = Inr (\<lparr>registered_units = Map.empty, components = Map.empty\<rparr>,
            \<lparr>enabled_units = [ExUnit ''spaxel'' 1 ''unknown''],
             FLUX_UNIT_REGISTRY = \<lparr>runtime_defined_units = []\<rparr>,
             AREA_UNIT_REGISTRY =
               \<lparr>runtime_solid_angle_units = [],
                runtime_pixel_units = [PyUnit (ExUnit ''spaxel'' 1 ''unknown'')]\<rparr>\<rparr>)"
    by (simp add: FluxUnitController_init_def empty example_new_name example_predefined_name
          example_register_spaxel example_register_spaxel_again)
qed

end
